theory Spec2Isabelle
  imports Main "HOL-Library.List_Lexorder" "HOL-Library.Sublist"
begin

section \<open>Python strings and values\<close>

text \<open>
  A Python \<^verbatim>\<open>str\<close> is a sequence of Unicode code points, so it is modelled as a list
  of natural numbers; \<open>lit ''abc''\<close> is the string of an ASCII literal. The order on
  strings that \<^verbatim>\<open>sorted\<close> uses is the lexicographic order on code points, which is the
  order of \<open>List_Lexorder\<close>.
\<close>

type_synonym pystr = "nat list"

definition lit :: "string \<Rightarrow> pystr" where
  "lit s = map of_char s"

text \<open>
  \<^verbatim>\<open>str.isspace\<close>, which is also what \<^verbatim>\<open>\s\<close> matches in a \<^verbatim>\<open>str\<close> pattern and what
  \<^verbatim>\<open>str.strip()\<close> removes.
\<close>

definition isspace :: "nat \<Rightarrow> bool" where
  "isspace c = ((9 \<le> c \<and> c \<le> 13) \<or> (28 \<le> c \<and> c \<le> 32) \<or> c = 133 \<or> c = 160
     \<or> c = 5760 \<or> (8192 \<le> c \<and> c \<le> 8202) \<or> c = 8232 \<or> c = 8233 \<or> c = 8239
     \<or> c = 8287 \<or> c = 12288)"

text \<open>
  \<^verbatim>\<open>\d\<close> in a \<^verbatim>\<open>str\<close> pattern matches every Unicode decimal digit (category Nd), and
  \<^verbatim>\<open>float\<close> and \<^verbatim>\<open>int\<close> read each of them with its digit value. The digits of every
  script are ten consecutive code points; \<open>nd_zeros\<close> lists the code point of each
  script's zero, in increasing order (Unicode 14.0, the table of CPython 3.11).
\<close>

definition nd_zeros :: "nat list" where
  "nd_zeros = [48, 1632, 1776, 1984, 2406, 2534, 2662, 2790, 2918, 3046, 3174, 3302, 3430,
     3558, 3664, 3792, 3872, 4160, 4240, 6112, 6160, 6470, 6608, 6784, 6800, 6992, 7088,
     7232, 7248, 42528, 43216, 43264, 43472, 43504, 43600, 44016, 65296, 66720, 68912,
     69734, 69872, 69942, 70096, 70384, 70736, 70864, 71248, 71360, 71472, 71904, 72016,
     72784, 73040, 73120, 92768, 92864, 93008, 120782, 120792, 120802, 120812, 120822,
     123200, 123632, 125264, 130032]"

fun nd_lookup :: "nat list \<Rightarrow> nat \<Rightarrow> nat option" where
  "nd_lookup [] c = None"
| "nd_lookup (z # zs) c =
     (if c < z then None else if c \<le> z + 9 then Some (c - z) else nd_lookup zs c)"

definition digit_value :: "nat \<Rightarrow> nat option" where
  "digit_value c = nd_lookup nd_zeros c"

definition isdecimal :: "nat \<Rightarrow> bool" where
  "isdecimal c = (digit_value c \<noteq> None)"

text \<open>\<^verbatim>\<open>s.strip()\<close>, \<^verbatim>\<open>s.strip(chars)\<close>, \<^verbatim>\<open>s.replace(a, b)\<close> for a one-character
  \<^verbatim>\<open>a\<close>, \<^verbatim>\<open>s.count(a)\<close>, \<^verbatim>\<open>s.startswith(p)\<close>, \<^verbatim>\<open>w in s\<close> and \<^verbatim>\<open>sep.join(xs)\<close>.\<close>

definition strip :: "pystr \<Rightarrow> pystr" where
  "strip s = rev (dropWhile isspace (rev (dropWhile isspace s)))"

definition strip_chars :: "pystr \<Rightarrow> pystr \<Rightarrow> pystr" where
  "strip_chars cs s =
     rev (dropWhile (\<lambda>c. c \<in> set cs) (rev (dropWhile (\<lambda>c. c \<in> set cs) s)))"

definition replace_char :: "nat \<Rightarrow> pystr \<Rightarrow> pystr \<Rightarrow> pystr" where
  "replace_char a b s = concat (map (\<lambda>c. if c = a then b else [c]) s)"

definition startswith :: "pystr \<Rightarrow> pystr \<Rightarrow> bool" where
  "startswith s p = (take (length p) s = p)"

fun contains :: "pystr \<Rightarrow> pystr \<Rightarrow> bool" where
  "contains w [] = (w = [])"
| "contains w (c # cs) = (startswith (c # cs) w \<or> contains w cs)"

fun join :: "pystr \<Rightarrow> pystr list \<Rightarrow> pystr" where
  "join sep [] = []"
| "join sep [x] = x"
| "join sep (x # y # ys) = x @ sep @ join sep (y # ys)"

text \<open>\<^verbatim>\<open>str(n)\<close> for an integer.\<close>

fun digits_of_nat :: "nat \<Rightarrow> pystr" where
  "digits_of_nat n = (if n < 10 then [48 + n] else digits_of_nat (n div 10) @ [48 + n mod 10])"

declare digits_of_nat.simps [simp del]

definition str_int :: "int \<Rightarrow> pystr" where
  "str_int i = (if i < 0 then 45 # digits_of_nat (nat (- i)) else digits_of_nat (nat i))"

text \<open>
  \<^verbatim>\<open>str.lower()\<close>. The program lowers a string only to look for ASCII words in it
  (\<^verbatim>\<open>"image" in kl\<close>, \<^verbatim>\<open>"cdn" in sval.lower()\<close>). \<open>lower\<close> agrees with Python on every
  character whose lower case contains an ASCII character: the letters A to Z, the Kelvin
  sign U+212A (lower case \<^verbatim>\<open>k\<close>) and U+0130 (lower case \<^verbatim>\<open>i\<close> followed by U+0307). Every
  other character is kept as it is; Python may map it to other non-ASCII characters, which
  changes no search for an ASCII word.
\<close>

definition lower_char :: "nat \<Rightarrow> pystr" where
  "lower_char c = (if 65 \<le> c \<and> c \<le> 90 then [c + 32] else if c = 8490 then [107]
     else if c = 304 then [105, 775] else [c])"

definition lower :: "pystr \<Rightarrow> pystr" where
  "lower s = concat (map lower_char s)"

text \<open>
  The values \<^verbatim>\<open>json.loads\<close> returns, and tuples, which \<^verbatim>\<open>flatten_images_field\<close> also
  accepts. A \<^verbatim>\<open>dict\<close> is the list of its items in iteration order (its keys are strings,
  as in every JSON object). JSON numbers with a fraction or an exponent (Python floats)
  are not part of the model.
\<close>

datatype pyval =
    PNone
  | PBool bool
  | PInt int
  | PStr pystr
  | PList "pyval list"
  | PTuple "pyval list"
  | PDict "(pystr \<times> pyval) list"

text \<open>Truth value of a value (\<^verbatim>\<open>if v\<close>, \<^verbatim>\<open>not v\<close>) and \<^verbatim>\<open>a or b\<close>.\<close>

fun truthy :: "pyval \<Rightarrow> bool" where
  "truthy PNone = False"
| "truthy (PBool b) = b"
| "truthy (PInt i) = (i \<noteq> 0)"
| "truthy (PStr s) = (s \<noteq> [])"
| "truthy (PList xs) = (xs \<noteq> [])"
| "truthy (PTuple xs) = (xs \<noteq> [])"
| "truthy (PDict kvs) = (kvs \<noteq> [])"

definition py_or :: "pyval \<Rightarrow> pyval \<Rightarrow> pyval" where
  "py_or a b = (if truthy a then a else b)"

text \<open>\<^verbatim>\<open>d.get(k)\<close> (None when the key is absent) and \<^verbatim>\<open>k in d\<close>.\<close>

definition dict_get :: "(pystr \<times> pyval) list \<Rightarrow> pystr \<Rightarrow> pyval" where
  "dict_get d k = (case map_of d k of Some v \<Rightarrow> v | None \<Rightarrow> PNone)"

definition has_key :: "(pystr \<times> pyval) list \<Rightarrow> pystr \<Rightarrow> bool" where
  "has_key d k = (map_of d k \<noteq> None)"

text \<open>
  \<^verbatim>\<open>str(v)\<close>. For a list, a tuple or a dict Python prints the \<^verbatim>\<open>repr\<close> of the elements,
  which depends on the interpreter's table of printable characters; that rendering is the
  parameter \<open>R\<close> of every function that can reach it.
\<close>

fun py_str :: "(pyval \<Rightarrow> pystr) \<Rightarrow> pyval \<Rightarrow> pystr" where
  "py_str R PNone = lit ''None''"
| "py_str R (PBool b) = (if b then lit ''True'' else lit ''False'')"
| "py_str R (PInt i) = str_int i"
| "py_str R (PStr s) = s"
| "py_str R v = R v"

section \<open>Regular expressions\<close>

text \<open>
  The patterns of the program use character classes, concatenation, greedy optional
  parts and greedy repetition. \<open>rmatch r s\<close> lists, in the order in which Python's
  backtracking matcher tries them, the rests of \<open>s\<close> after each way of matching \<open>r\<close> at
  the start of \<open>s\<close>; the match Python reports is the first one.
\<close>

datatype regex =
    Eps
  | Cls "nat \<Rightarrow> bool"
  | Cat regex regex
  | Opt regex
  | Star regex

function rmatch :: "regex \<Rightarrow> pystr \<Rightarrow> pystr list" where
  "rmatch Eps s = [s]"
| "rmatch (Cls P) [] = []"
| "rmatch (Cls P) (c # cs) = (if P c then [cs] else [])"
| "rmatch (Cat a b) s = concat (map (rmatch b) (rmatch a s))"
| "rmatch (Opt a) s = rmatch a s @ [s]"
| "rmatch (Star a) s =
     concat (map (rmatch (Star a)) (filter (\<lambda>t. length t < length s) (rmatch a s))) @ [s]"
  by pat_completeness auto
termination
  by (relation "measures [\<lambda>(r, s). size r, \<lambda>(r, s). length s]") auto

text \<open>\<^verbatim>\<open>r+\<close>, \<^verbatim>\<open>r{3}\<close>, \<^verbatim>\<open>r{1,2}\<close>, \<^verbatim>\<open>r{1,3}\<close>, a literal character and a sequence.\<close>

definition plus :: "regex \<Rightarrow> regex" where
  "plus r = Cat r (Star r)"

definition rep3 :: "regex \<Rightarrow> regex" where
  "rep3 r = Cat r (Cat r r)"

definition rep1_2 :: "regex \<Rightarrow> regex" where
  "rep1_2 r = Cat r (Opt r)"

definition rep1_3 :: "regex \<Rightarrow> regex" where
  "rep1_3 r = Cat r (Opt (Cat r (Opt r)))"

definition chr :: "nat \<Rightarrow> regex" where
  "chr c = Cls (\<lambda>x. x = c)"

definition seq :: "regex list \<Rightarrow> regex" where
  "seq rs = foldr Cat rs Eps"

text \<open>
  \<^verbatim>\<open>re.search\<close>: the first position at which the pattern matches. The result is the text
  before the match, the matched text and the text after it; the second argument collects
  the text already passed.
\<close>

fun re_search :: "regex \<Rightarrow> pystr \<Rightarrow> pystr \<Rightarrow> (pystr \<times> pystr \<times> pystr) option" where
  "re_search r pre [] = (case rmatch r [] of t # _ \<Rightarrow> Some (pre, [], t) | [] \<Rightarrow> None)"
| "re_search r pre (c # cs) =
     (case rmatch r (c # cs) of
        t # _ \<Rightarrow> Some (pre, take (length (c # cs) - length t) (c # cs), t)
      | [] \<Rightarrow> re_search r (pre @ [c]) cs)"

text \<open>
  \<^verbatim>\<open>findall\<close>, \<^verbatim>\<open>re.split\<close> and \<^verbatim>\<open>re.sub\<close> for a pattern that never matches the empty
  string (all patterns they are used with here): each continues after the previous match.
\<close>

fun re_findall :: "regex \<Rightarrow> pystr \<Rightarrow> pystr list" where
  "re_findall r s =
     (case re_search r [] s of
        None \<Rightarrow> []
      | Some (pre, m, post) \<Rightarrow> if length post < length s then m # re_findall r post else [m])"

fun re_split :: "regex \<Rightarrow> pystr \<Rightarrow> pystr list" where
  "re_split r s =
     (case re_search r [] s of
        None \<Rightarrow> [s]
      | Some (pre, m, post) \<Rightarrow> if length post < length s then pre # re_split r post else [s])"

fun re_sub :: "regex \<Rightarrow> pystr \<Rightarrow> pystr \<Rightarrow> pystr" where
  "re_sub r rep s =
     (case re_search r [] s of
        None \<Rightarrow> s
      | Some (pre, m, post) \<Rightarrow>
          if length post < length s then pre @ rep @ re_sub r rep post else s)"

declare re_findall.simps [simp del] re_split.simps [simp del] re_sub.simps [simp del]

section \<open>Floating-point conversion and formatting\<close>

text \<open>
  \<^verbatim>\<open>float(numeric)\<close> followed by \<^verbatim>\<open>f"{float_val:.2f}"\<close>. The only strings
  \<^verbatim>\<open>normalize_price\<close> passes to \<^verbatim>\<open>float\<close> consist of decimal digits, dots and whitespace
  (they are what its pattern matched, with spaces removed and commas turned into dots).
  On such a string \<^verbatim>\<open>float\<close> drops surrounding whitespace and accepts digits with at most
  one dot and at least one digit; everything else raises \<^verbatim>\<open>ValueError\<close>, which is \<open>None\<close>
  here. Signs, exponents, underscores and the words \<^verbatim>\<open>inf\<close> and \<^verbatim>\<open>nan\<close> cannot occur and
  are not modelled. \<open>parse_decimal\<close> returns \<open>(n, k)\<close> for the decimal number \<open>n / 10^k\<close>.
\<close>

fun digits_value :: "pystr \<Rightarrow> nat \<Rightarrow> nat option" where
  "digits_value [] acc = Some acc"
| "digits_value (c # cs) acc =
     (case digit_value c of None \<Rightarrow> None | Some d \<Rightarrow> digits_value cs (10 * acc + d))"

definition parse_decimal :: "pystr \<Rightarrow> (nat \<times> nat) option" where
  "parse_decimal s =
     (let t = strip s;
          ip = takeWhile (\<lambda>c. c \<noteq> 46) t;
          fp = drop 1 (dropWhile (\<lambda>c. c \<noteq> 46) t)
      in if ip = [] \<and> fp = [] then None
         else case digits_value (ip @ fp) 0 of
                None \<Rightarrow> None
              | Some n \<Rightarrow> Some (n, length fp))"

text \<open>
  A Python float is an IEEE 754 binary64 number. The non-negative ones are \<open>Finite m e\<close>,
  the number \<open>m * 2^e\<close>, and infinity. \<open>to_binary64\<close> rounds a decimal number to the
  nearest of them, ties to the even significand, as \<^verbatim>\<open>float\<close> does: the significand has
  53 bits, the exponent is at least \<open>-1074\<close>, and a result of \<open>2^1024\<close> or more is infinity.
\<close>

datatype pyfloat = Finite nat int | FInf

fun bit_length :: "nat \<Rightarrow> nat" where
  "bit_length n = (if n = 0 then 0 else Suc (bit_length (n div 2)))"

declare bit_length.simps [simp del]

definition ratio_ge :: "nat \<Rightarrow> nat \<Rightarrow> int \<Rightarrow> bool" where
  "ratio_ge a b d = (b * 2 ^ nat d \<le> a * 2 ^ nat (- d))"

definition floor_log2_ratio :: "nat \<Rightarrow> nat \<Rightarrow> int" where
  "floor_log2_ratio a b =
     (let d = int (bit_length a) - int (bit_length b) in if ratio_ge a b d then d else d - 1)"

definition round_half_even :: "nat \<Rightarrow> nat \<Rightarrow> nat" where
  "round_half_even n d =
     (let q = n div d; r = n mod d
      in if 2 * r < d then q else if d < 2 * r then q + 1 else if even q then q else q + 1)"

definition to_binary64 :: "nat \<times> nat \<Rightarrow> pyfloat" where
  "to_binary64 nk =
     (let n = fst nk; b = 10 ^ snd nk
      in if n = 0 then Finite 0 0
         else let e = max (floor_log2_ratio n b - 52) (- 1074);
                  m = (if 0 \<le> e then round_half_even n (b * 2 ^ nat e)
                       else round_half_even (n * 2 ^ nat (- e)) b)
              in if 0 \<le> e \<and> 2 ^ 1024 \<le> m * 2 ^ nat e then FInf else Finite m e)"

definition py_float :: "pystr \<Rightarrow> pyfloat option" where
  "py_float s = map_option to_binary64 (parse_decimal s)"

text \<open>\<^verbatim>\<open>f"{x:.2f}"\<close>: the exact value of the float, rounded to two decimals, ties to even.\<close>

fun format_2f :: "pyfloat \<Rightarrow> pystr" where
  "format_2f FInf = lit ''inf''"
| "format_2f (Finite m e) =
     (let c = (if 0 \<le> e then m * 2 ^ nat e * 100 else round_half_even (m * 100) (2 ^ nat (- e)))
      in digits_of_nat (c div 100) @ [46, 48 + (c mod 100) div 10, 48 + c mod 10])"

section \<open>The post-processor: \<^verbatim>\<open>clean_and_flatten_output.py\<close>\<close>

subsection \<open>Patterns\<close>

text \<open>\<^verbatim>\<open>URL_RE = re.compile(r"https?://[^\s\"',;]+", re.IGNORECASE)\<close>. Ignoring case, a
  letter of the pattern matches its lower and upper case, and \<^verbatim>\<open>s\<close> also matches
  U+017F (long s), as Python's matcher has it.\<close>

definition icase :: "nat \<Rightarrow> regex" where
  "icase c = Cls (\<lambda>x. x = c \<or> x + 32 = c \<or> (c = 115 \<and> x = 383))"

definition url_char :: "nat \<Rightarrow> bool" where
  "url_char c = (\<not> isspace c \<and> c \<noteq> 34 \<and> c \<noteq> 39 \<and> c \<noteq> 44 \<and> c \<noteq> 59)"

definition URL_RE :: regex where
  "URL_RE = seq [icase 104, icase 116, icase 116, icase 112, Opt (icase 115),
                 chr 58, chr 47, chr 47, plus (Cls url_char)]"

text \<open>\<^verbatim>\<open>r'(\d{1,3}(?:[ \.,]\d{3})*(?:[,\.\s]\d{1,2})?)'\<close>; its group 1 is the whole match.\<close>

definition price_re :: regex where
  "price_re = seq [rep1_3 (Cls isdecimal),
                   Star (Cat (Cls (\<lambda>c. c = 32 \<or> c = 46 \<or> c = 44)) (rep3 (Cls isdecimal))),
                   Opt (Cat (Cls (\<lambda>c. c = 44 \<or> c = 46 \<or> isspace c)) (rep1_2 (Cls isdecimal)))]"

text \<open>\<^verbatim>\<open>r'[;,]\s*'\<close> and \<^verbatim>\<open>r"\s+"\<close>.\<close>

definition sep_re :: regex where
  "sep_re = Cat (Cls (\<lambda>c. c = 59 \<or> c = 44)) (Star (Cls isspace))"

definition spaces_re :: regex where
  "spaces_re = plus (Cls isspace)"

subsection \<open>\<^verbatim>\<open>normalize_price\<close>\<close>

text \<open>The result is the pair \<^verbatim>\<open>(raw, normalized)\<close>; \<open>None\<close> is Python's \<^verbatim>\<open>None\<close>.\<close>

definition normalize_price :: "(pyval \<Rightarrow> pystr) \<Rightarrow> pyval \<Rightarrow> pystr option \<times> pystr option" where
  "normalize_price R p =
     (if \<not> truthy p then (None, None)
      else let s = strip (py_str R p);
               s = replace_char 160 [32] s
           in case re_search price_re [] s of
                None \<Rightarrow> (Some s, None)
              | Some (pre, raw, post) \<Rightarrow>
                  let cleaned = replace_char 8239 [] (replace_char 32 [] raw);
                      numeric =
                        (if 0 < count_list cleaned 44 \<and> count_list cleaned 46 = 0
                           then replace_char 44 [46] cleaned
                         else if 0 < count_list cleaned 46 \<and> count_list cleaned 44 = 0
                           then cleaned
                         else replace_char 44 [46] cleaned)
                  in case py_float numeric of
                       Some float_val \<Rightarrow> (Some raw, Some (format_2f float_val))
                     | None \<Rightarrow> (Some raw, None))"

subsection \<open>\<^verbatim>\<open>json.dumps(v, ensure_ascii=False)\<close>\<close>

text \<open>
  The compact form with the separators \<^verbatim>\<open>", "\<close> and \<^verbatim>\<open>": "\<close>. In a string, the quote,
  the backslash and the control characters below U+0020 are escaped and every other
  character stands for itself. A tuple is written as a list.
\<close>

definition hex_digit :: "nat \<Rightarrow> nat" where
  "hex_digit d = (if d < 10 then 48 + d else 87 + d)"

definition json_escape_char :: "nat \<Rightarrow> pystr" where
  "json_escape_char c =
     (if c = 34 then [92, 34]
      else if c = 92 then [92, 92]
      else if c = 10 then [92, 110]
      else if c = 13 then [92, 114]
      else if c = 9 then [92, 116]
      else if c = 8 then [92, 98]
      else if c = 12 then [92, 102]
      else if c < 32 then [92, 117, 48, 48, hex_digit (c div 16), hex_digit (c mod 16)]
      else [c])"

definition json_string :: "pystr \<Rightarrow> pystr" where
  "json_string s = [34] @ concat (map json_escape_char s) @ [34]"

fun json_dumps :: "pyval \<Rightarrow> pystr" where
  "json_dumps PNone = lit ''null''"
| "json_dumps (PBool b) = (if b then lit ''true'' else lit ''false'')"
| "json_dumps (PInt i) = str_int i"
| "json_dumps (PStr s) = json_string s"
| "json_dumps (PList xs) = [91] @ join (lit '', '') (map json_dumps xs) @ [93]"
| "json_dumps (PTuple xs) = [91] @ join (lit '', '') (map json_dumps xs) @ [93]"
| "json_dumps (PDict kvs) =
     [123] @ join (lit '', '')
               (map (\<lambda>kv. json_string (fst kv) @ lit '': '' @ json_dumps (snd kv)) kvs) @ [125]"

subsection \<open>\<^verbatim>\<open>extract_urls_from_string\<close> and \<^verbatim>\<open>flatten_images_field\<close>\<close>

text \<open>\<^verbatim>\<open>p.strip().strip('"').strip("'")\<close>.\<close>

definition strip_quotes :: "pystr \<Rightarrow> pystr" where
  "strip_quotes p = strip_chars [39] (strip_chars [34] (strip p))"

definition extract_urls_from_string :: "pystr \<Rightarrow> pystr list" where
  "extract_urls_from_string s =
     (if s = [] then []
      else let found = re_findall URL_RE s
           in if found \<noteq> [] then found
              else foldl (\<lambda>out p. case re_search URL_RE [] (strip_quotes p) of
                                     Some (pre, m, post) \<Rightarrow> out @ [m]
                                   | None \<Rightarrow> out)
                         [] (re_split sep_re s))"

text \<open>
  The loops of \<^verbatim>\<open>flatten_images_field\<close> carry the pair of \<^verbatim>\<open>out\<close> and \<^verbatim>\<open>seen\<close>.
  \<open>add_stripped\<close> is the body of the loops over \<^verbatim>\<open>urls\<close> that strip each URL (list and
  string case), \<open>add_new\<close> the body of the loop of the dict case, \<open>add_http\<close> the body of the
  loop over the comma or semicolon separated parts of a string in which no URL was found.
\<close>

definition add_new :: "pystr list \<times> pystr set \<Rightarrow> pystr \<Rightarrow> pystr list \<times> pystr set" where
  "add_new st u = (if u \<notin> snd st then (fst st @ [u], insert u (snd st)) else st)"

definition add_stripped :: "pystr list \<times> pystr set \<Rightarrow> pystr \<Rightarrow> pystr list \<times> pystr set" where
  "add_stripped st u =
     (let uu = strip u
      in if uu \<noteq> [] \<and> uu \<notin> snd st then (fst st @ [uu], insert uu (snd st)) else st)"

definition add_http :: "pystr list \<times> pystr set \<Rightarrow> pystr \<Rightarrow> pystr list \<times> pystr set" where
  "add_http st p =
     (let p = strip_quotes p
      in if startswith p (lit ''http'')
         then (if p \<notin> snd st then (fst st @ [p], insert p (snd st)) else st)
         else st)"

definition flatten_str :: "pystr \<Rightarrow> pystr list" where
  "flatten_str s =
     (let urls = extract_urls_from_string s;
          st = foldl add_stripped ([], {}) urls;
          st = (if fst st = [] then foldl add_http st (re_split sep_re s) else st)
      in fst st)"

definition is_container :: "pyval \<Rightarrow> bool" where
  "is_container v = (case v of PList xs \<Rightarrow> True | PTuple xs \<Rightarrow> True | PDict kvs \<Rightarrow> True
                     | _ \<Rightarrow> False)"

definition flatten_seq :: "(pyval \<Rightarrow> pystr) \<Rightarrow> pyval list \<Rightarrow> pystr list" where
  "flatten_seq R xs =
     fst (foldl (\<lambda>st v. if \<not> truthy v then st
                         else let urls = (if is_container v
                                          then extract_urls_from_string (json_dumps v)
                                          else extract_urls_from_string (py_str R v))
                              in foldl add_stripped st urls)
                ([], {}) xs)"

text \<open>
  A value that is not a list, a tuple, a dict or a string is flattened through
  \<^verbatim>\<open>flatten_images_field(str(value))\<close>; only \<^verbatim>\<open>True\<close> and the integers other than 0 get
  there, and their \<^verbatim>\<open>str\<close> is a string that is not empty.
\<close>

fun flatten_images_field :: "(pyval \<Rightarrow> pystr) \<Rightarrow> pyval \<Rightarrow> pystr list" where
  "flatten_images_field R PNone = []"
| "flatten_images_field R (PBool b) =
     (if \<not> b then [] else flatten_str (py_str R (PBool b)))"
| "flatten_images_field R (PInt i) =
     (if i = 0 then [] else flatten_str (py_str R (PInt i)))"
| "flatten_images_field R (PStr s) = (if s = [] then [] else flatten_str s)"
| "flatten_images_field R (PList xs) = (if xs = [] then [] else flatten_seq R xs)"
| "flatten_images_field R (PTuple xs) = (if xs = [] then [] else flatten_seq R xs)"
| "flatten_images_field R (PDict kvs) =
     (if kvs = [] then []
      else fst (foldl (\<lambda>st kv. foldl add_new st (flatten_images_field R (snd kv)))
                      ([], {}) kvs))"

subsection \<open>\<^verbatim>\<open>guess_image_keys\<close> and \<^verbatim>\<open>clean_text\<close>\<close>

definition looks_like_image_key :: "pystr \<Rightarrow> bool" where
  "looks_like_image_key k =
     (let kl = lower k
      in contains (lit ''image'') kl \<or> contains (lit ''img'') kl
         \<or> contains (lit ''picture'') kl \<or> contains (lit ''foto'') kl
         \<or> contains (lit ''bild'') kl)"

definition guess_image_keys :: "(pystr \<times> pyval) list \<Rightarrow> pystr list" where
  "guess_image_keys item =
     foldl (\<lambda>keys k. if has_key item k \<and> k \<notin> set keys then keys @ [k] else keys)
           (filter looks_like_image_key (map fst item))
           [lit ''images'', lit ''image'', lit ''image_urls'', lit ''image_url'',
            lit ''imageUrls'', lit ''bilder'', lit ''pictures'']"

definition clean_text :: "(pyval \<Rightarrow> pystr) \<Rightarrow> pyval \<Rightarrow> pystr" where
  "clean_text R v =
     (case v of
        PNone \<Rightarrow> []
      | _ \<Rightarrow> re_sub spaces_re [32] (strip (replace_char 160 [32] (py_str R v))))"

subsection \<open>The loop of \<^verbatim>\<open>main\<close>\<close>

datatype error = FileNotFoundError | ValueError | TypeError | UnicodeEncodeError

text \<open>
  \<^verbatim>\<open>uid in seen_ids\<close> and \<^verbatim>\<open>seen_ids.add(uid)\<close> hash \<^verbatim>\<open>uid\<close>: a list or a dict (also inside
  a tuple) raises \<^verbatim>\<open>TypeError\<close>. Python's set holds \<^verbatim>\<open>True\<close> and \<^verbatim>\<open>1\<close> (and \<^verbatim>\<open>False\<close>
  and \<^verbatim>\<open>0\<close>) as one element; \<open>hash_key\<close> maps a value to the representative under which
  the model's set holds it.
\<close>

fun hashable :: "pyval \<Rightarrow> bool" where
  "hashable (PList xs) = False"
| "hashable (PDict kvs) = False"
| "hashable (PTuple xs) = list_all hashable xs"
| "hashable v = True"

fun hash_key :: "pyval \<Rightarrow> pyval" where
  "hash_key (PBool b) = PInt (if b then 1 else 0)"
| "hash_key (PTuple xs) = PTuple (map hash_key xs)"
| "hash_key v = v"

text \<open>\<^verbatim>\<open>it.get("unique_id") or it.get("product_id") or it.get("product_url")\<close>.\<close>

definition dedup_uid :: "(pystr \<times> pyval) list \<Rightarrow> pyval" where
  "dedup_uid it =
     py_or (py_or (dict_get it (lit ''unique_id'')) (dict_get it (lit ''product_id'')))
           (dict_get it (lit ''product_url''))"

text \<open>
  Image handling. \<open>preferred_urls\<close> is the loop over the preferred keys,
  \<open>guessed_urls\<close> the loop over the guessed keys, \<open>heuristic_urls\<close> the loop over all
  items of the record; each stops at the first list of URLs that is not empty.
\<close>

fun preferred_urls :: "(pyval \<Rightarrow> pystr) \<Rightarrow> (pystr \<times> pyval) list \<Rightarrow> pystr list \<Rightarrow> pystr list" where
  "preferred_urls R it [] = []"
| "preferred_urls R it (preferred # ks) =
     (if has_key it preferred
      then (let image_urls = flatten_images_field R (dict_get it preferred)
            in if image_urls \<noteq> [] then image_urls else preferred_urls R it ks)
      else preferred_urls R it ks)"

fun guessed_urls :: "(pyval \<Rightarrow> pystr) \<Rightarrow> (pystr \<times> pyval) list \<Rightarrow> pystr list \<Rightarrow> pystr list" where
  "guessed_urls R it [] = []"
| "guessed_urls R it (k # ks) =
     (let image_urls = flatten_images_field R (dict_get it k)
      in if image_urls \<noteq> [] then image_urls else guessed_urls R it ks)"

definition mentions_url :: "pyval \<Rightarrow> bool" where
  "mentions_url v =
     (let sval = (case v of PStr s \<Rightarrow> s | _ \<Rightarrow> json_dumps v)
      in contains (lit ''cdn'') (lower sval) \<or> contains (lit ''http'') (lower sval))"

fun heuristic_urls :: "(pyval \<Rightarrow> pystr) \<Rightarrow> (pystr \<times> pyval) list \<Rightarrow> pystr list" where
  "heuristic_urls R [] = []"
| "heuristic_urls R ((k, v) # kvs) =
     (if (case v of PList xs \<Rightarrow> True | PDict d \<Rightarrow> True | PStr s \<Rightarrow> True | _ \<Rightarrow> False)
         \<and> mentions_url v
      then (let urls = flatten_images_field R v
            in if urls \<noteq> [] then urls else heuristic_urls R kvs)
      else heuristic_urls R kvs)"

definition select_images :: "(pyval \<Rightarrow> pystr) \<Rightarrow> (pystr \<times> pyval) list \<Rightarrow> pystr list" where
  "select_images R it =
     (let image_urls = preferred_urls R it [lit ''images'', lit ''image'', lit ''image_urls'',
                                            lit ''image_url'', lit ''imageUrls''];
          image_urls = (if image_urls = [] then guessed_urls R it (guess_image_keys it)
                        else image_urls);
          image_urls = (if image_urls = [] then heuristic_urls R it else image_urls)
      in image_urls)"

text \<open>
  The dict \<^verbatim>\<open>out\<close> built for one record, as the list of its items in insertion order.
  Every value is a string.
\<close>

definition clean_item :: "(pyval \<Rightarrow> pystr) \<Rightarrow> (pystr \<times> pyval) list \<Rightarrow> (pystr \<times> pystr) list" where
  "clean_item R it =
     (let price = normalize_price R (py_or (py_or (dict_get it (lit ''price''))
                                                 (dict_get it (lit ''regular_price'')))
                                          (PStr []));
          image_urls = select_images R it
      in [(lit ''product_url'', clean_text R (dict_get it (lit ''product_url''))),
          (lit ''product_name'', clean_text R (dict_get it (lit ''product_name''))),
          (lit ''price'', (case fst price of Some raw_price \<Rightarrow> raw_price | None \<Rightarrow> [])),
          (lit ''regular_price'', (case snd price of Some numeric \<Rightarrow> numeric | None \<Rightarrow> [])),
          (lit ''currency'', clean_text R (py_or (dict_get it (lit ''currency'')) (PStr []))),
          (lit ''images'', (if image_urls \<noteq> [] then join [59] image_urls else [])),
          (lit ''product_description'',
             clean_text R (py_or (dict_get it (lit ''product_description'')) (PStr []))),
          (lit ''unique_id'', clean_text R (py_or (dict_get it (lit ''unique_id'')) (PStr []))),
          (lit ''product_id'', clean_text R (py_or (dict_get it (lit ''product_id'')) (PStr []))),
          (lit ''ingredients'', clean_text R (py_or (dict_get it (lit ''ingredients'')) (PStr []))),
          (lit ''details'', clean_text R (py_or (dict_get it (lit ''details'')) (PStr [])))])"

record loop_state =
  cleaned :: "(pystr \<times> pystr) list list"
  seen_ids :: "pyval set"
  removed :: nat
  items_with_images :: nat

definition emit :: "(pyval \<Rightarrow> pystr) \<Rightarrow> (pystr \<times> pyval) list \<Rightarrow> loop_state \<Rightarrow> loop_state" where
  "emit R it st =
     st\<lparr>cleaned := cleaned st @ [clean_item R it],
        items_with_images :=
          (if select_images R it \<noteq> [] then items_with_images st + 1 else items_with_images st)\<rparr>"

text \<open>One pass of the loop body for an entry that is a dict.\<close>

definition loop_body :: "(pyval \<Rightarrow> pystr) \<Rightarrow> (pystr \<times> pyval) list \<Rightarrow> loop_state \<Rightarrow> error + loop_state" where
  "loop_body R it st =
     (let uid = dedup_uid it
      in if truthy uid
         then (if \<not> hashable uid then Inl TypeError
               else if hash_key uid \<in> seen_ids st then Inr (st\<lparr>removed := removed st + 1\<rparr>)
               else Inr (emit R it (st\<lparr>seen_ids := insert (hash_key uid) (seen_ids st)\<rparr>)))
         else Inr (emit R it st))"

fun main_loop :: "(pyval \<Rightarrow> pystr) \<Rightarrow> pyval list \<Rightarrow> loop_state \<Rightarrow> error + loop_state" where
  "main_loop R [] st = Inr st"
| "main_loop R (PDict it # items) st =
     (case loop_body R it st of Inl e \<Rightarrow> Inl e | Inr st' \<Rightarrow> main_loop R items st')"
| "main_loop R (v # items) st = main_loop R items st"

definition init_state :: loop_state where
  "init_state = \<lparr>cleaned = [], seen_ids = {}, removed = 0, items_with_images = 0\<rparr>"

subsection \<open>Files and \<^verbatim>\<open>main\<close>\<close>

text \<open>
  The program reads \<^verbatim>\<open>output.json\<close> and writes \<^verbatim>\<open>cleaned_output.json\<close> and
  \<^verbatim>\<open>cleaned_output.csv\<close>. The input file is absent, or holds a text that \<^verbatim>\<open>json.loads\<close>
  or the decoder rejects, or holds a JSON document, given as the value \<^verbatim>\<open>json.loads\<close>
  returns. An output file holds what the writing library was handed: the list of cleaned
  items for \<^verbatim>\<open>json.dumps\<close>, or the header and the rows for \<^verbatim>\<open>csv.DictWriter\<close>; a file
  opened for writing whose text could not be encoded is left empty. \<open>stdout\<close> is the list
  of the lines printed.
\<close>

datatype input_file = Missing | Malformed | Document pyval

datatype artifact =
    JsonFile "(pystr \<times> pystr) list list"
  | CsvFile "pystr list" "pystr list list"
  | EmptyFile

record world =
  input_json :: input_file
  outputs :: "string \<Rightarrow> artifact option"
  stdout :: "pystr list"

definition OUT_JSON :: string where
  "OUT_JSON = ''cleaned_output.json''"

definition OUT_CSV :: string where
  "OUT_CSV = ''cleaned_output.csv''"

text \<open>\<^verbatim>\<open>load_json(INPUT_JSON)\<close>; \<^verbatim>\<open>list(data)\<close> of a string is the list of its characters,
  and of \<^verbatim>\<open>None\<close>, a boolean or a number it raises \<^verbatim>\<open>TypeError\<close>.\<close>

definition load_json :: "world \<Rightarrow> error + pyval list" where
  "load_json w =
     (case input_json w of
        Missing \<Rightarrow> Inl FileNotFoundError
      | Malformed \<Rightarrow> Inl ValueError
      | Document data \<Rightarrow>
          (case data of
             PDict d \<Rightarrow> Inr [data]
           | PList xs \<Rightarrow> Inr xs
           | PTuple xs \<Rightarrow> Inr xs
           | PStr s \<Rightarrow> Inr (map (\<lambda>c. PStr [c]) s)
           | _ \<Rightarrow> Inl TypeError))"

definition fieldnames :: "pystr list" where
  "fieldnames = [lit ''unique_id'', lit ''product_id'', lit ''product_name'',
                 lit ''product_url'', lit ''price'', lit ''regular_price'', lit ''currency'',
                 lit ''product_description'', lit ''ingredients'', lit ''details'',
                 lit ''images'']"

text \<open>\<^verbatim>\<open>r.get(k, "")\<close> and the row \<^verbatim>\<open>{k: r.get(k, "") for k in fieldnames}\<close> as the writer
  lays it out, one cell per field name.\<close>

definition get_or_empty :: "(pystr \<times> pystr) list \<Rightarrow> pystr \<Rightarrow> pystr" where
  "get_or_empty r k = (case map_of r k of Some v \<Rightarrow> v | None \<Rightarrow> [])"

definition csv_row :: "(pystr \<times> pystr) list \<Rightarrow> pystr list" where
  "csv_row r = map (get_or_empty r) fieldnames"

text \<open>Writing a text as UTF-8 fails on a surrogate code point (U+D800 to U+DFFF), which
  \<^verbatim>\<open>json.loads\<close> can produce from an escape.\<close>

definition encodable :: "pystr \<Rightarrow> bool" where
  "encodable s = list_all (\<lambda>c. c < 55296 \<or> 57343 < c) s"

definition all_encodable :: "(pystr \<times> pystr) list list \<Rightarrow> bool" where
  "all_encodable rs = list_all (list_all (\<lambda>kv. encodable (snd kv))) rs"

definition report :: "nat \<Rightarrow> nat \<Rightarrow> nat \<Rightarrow> nat \<Rightarrow> pystr list" where
  "report n_items n_cleaned n_removed n_images =
     [lit ''Converted '' @ digits_of_nat n_items @ lit '' items -> '' @ digits_of_nat n_cleaned
        @ lit '' cleaned items (duplicates removed: '' @ digits_of_nat n_removed @ lit '').'',
      lit ''Items with images: '' @ digits_of_nat n_images @ lit '' / '' @ digits_of_nat n_cleaned,
      lit ''Wrote: cleaned_output.json and cleaned_output.csv'']"

text \<open>
  \<^verbatim>\<open>main\<close>. The result is the exception that ended the run, if any, and the world after
  it. Only \<^verbatim>\<open>FileNotFoundError\<close> is caught.
\<close>

definition main :: "(pyval \<Rightarrow> pystr) \<Rightarrow> world \<Rightarrow> error option \<times> world" where
  "main R w =
     (case load_json w of
        Inl FileNotFoundError \<Rightarrow>
          (None, w\<lparr>stdout := stdout w @ [lit ''ERROR: output.json not found in current folder.'']\<rparr>)
      | Inl e \<Rightarrow> (Some e, w)
      | Inr items \<Rightarrow>
          (case main_loop R items init_state of
             Inl e \<Rightarrow> (Some e, w)
           | Inr st \<Rightarrow>
               if \<not> all_encodable (cleaned st)
               then (Some UnicodeEncodeError, w\<lparr>outputs := (outputs w)(OUT_JSON \<mapsto> EmptyFile)\<rparr>)
               else (None,
                     w\<lparr>outputs := (outputs w)(OUT_JSON \<mapsto> JsonFile (cleaned st),
                                               OUT_CSV \<mapsto> CsvFile fieldnames (map csv_row (cleaned st))),
                       stdout := stdout w @ report (length items) (length (cleaned st))
                                                   (removed st) (items_with_images st)\<rparr>)))"

section \<open>The extractor: \<^verbatim>\<open>clever_spider.py\<close>\<close>

text \<open>
  A response is the page's URL, its \<^verbatim>\<open>a\<close> elements in document order, each with its
  \<^verbatim>\<open>href\<close> attribute (if it has one) and its string value, and the rest of the parsed
  document, which only the field extraction of the product handler reads. The selectors
  of the handlers select among the anchors.
\<close>

record anchor =
  href :: "pystr option"
  label :: pystr

record 'd response =
  url :: pystr
  anchors :: "anchor list"
  dom :: 'd

text \<open>\<^verbatim>\<open>response.css('a[href*="X"]::attr(href)').getall()\<close> and the same with
  \<^verbatim>\<open>href^="X"\<close>.\<close>

definition hrefs_containing :: "pystr \<Rightarrow> 'd response \<Rightarrow> pystr list" where
  "hrefs_containing x r =
     concat (map (\<lambda>a. case href a of Some h \<Rightarrow> (if contains x h then [h] else [])
                         | None \<Rightarrow> []) (anchors r))"

definition hrefs_starting :: "pystr \<Rightarrow> 'd response \<Rightarrow> pystr list" where
  "hrefs_starting x r =
     concat (map (\<lambda>a. case href a of Some h \<Rightarrow> (if startswith h x then [h] else [])
                         | None \<Rightarrow> []) (anchors r))"

text \<open>\<^verbatim>\<open>response.xpath('//a[contains(., "Next") or contains(., "Weiter") or
  contains(., "chevron_right")]/@href').get()\<close>.\<close>

definition suggests_next :: "anchor \<Rightarrow> bool" where
  "suggests_next a = (contains (lit ''Next'') (label a) \<or> contains (lit ''Weiter'') (label a)
                      \<or> contains (lit ''chevron_right'') (label a))"

definition next_anchor_href :: "'d response \<Rightarrow> pystr option" where
  "next_anchor_href r =
     (case concat (map (\<lambda>a. case href a of Some h \<Rightarrow> [h] | None \<Rightarrow> [])
                       (filter suggests_next (anchors r))) of
        [] \<Rightarrow> None
      | h # hs \<Rightarrow> Some h)"

text \<open>The spider's attributes. \<^verbatim>\<open>__init__\<close> gets \<^verbatim>\<open>int(max_items)\<close>, or nothing when
  the conversion raises.\<close>

record spider =
  max_items :: int
  seen :: "pystr set"
  item_count :: int
  current_url :: "pystr option"

definition spider_init :: "int option \<Rightarrow> spider" where
  "spider_init converted =
     \<lparr>max_items = (case converted of Some n \<Rightarrow> n | None \<Rightarrow> 1000),
      seen = {}, item_count = 0, current_url = None\<rparr>"

text \<open>What a handler yields: a request made by \<^verbatim>\<open>response.follow\<close> (its target, its
  callback and \<^verbatim>\<open>dont_filter\<close>), or an item.\<close>

datatype callback = Parse_category | Parse_listing | Parse_product

datatype 'i yielded = Follow pystr callback bool | Item 'i

text \<open>\<^verbatim>\<open>_abs\<close>; \<open>J\<close> is \<^verbatim>\<open>urljoin\<close>.\<close>

definition abs_url :: "(pystr \<Rightarrow> pystr \<Rightarrow> pystr) \<Rightarrow> 'd response \<Rightarrow> pystr \<Rightarrow> pystr option" where
  "abs_url J r h = (if h = [] then None else Some (J (url r) h))"

text \<open>\<^verbatim>\<open>dict.fromkeys(xs)\<close>: the elements of \<^verbatim>\<open>xs\<close> in the order of their first occurrence.\<close>

definition fromkeys :: "pystr list \<Rightarrow> pystr list" where
  "fromkeys xs = foldl (\<lambda>ks x. if x \<in> set ks then ks else ks @ [x]) [] xs"

definition parse :: "(pystr \<Rightarrow> pystr \<Rightarrow> pystr) \<Rightarrow> spider \<Rightarrow> 'd response \<Rightarrow> spider \<times> 'i yielded list" where
  "parse J s r =
     (let cat_links = hrefs_containing (lit ''/lebensmittel'') r
                      @ hrefs_containing (lit ''/getr'') r
                      @ hrefs_containing (lit ''/haushalt'') r
                      @ hrefs_containing (lit ''/tier'') r
                      @ hrefs_starting (lit ''/produkte/'') r
      in (s, concat (map (\<lambda>h. case abs_url J r h of
                                 Some u \<Rightarrow> (if u \<noteq> [] then [Follow u Parse_category True] else [])
                               | None \<Rightarrow> [])
                         (fromkeys cat_links))))"

text \<open>\<^verbatim>\<open>re.search(r'[?&]page=(\d+)', s)\<close> and \<^verbatim>\<open>int(m.group(1))\<close>: group 1 is the match
  without its first six characters.\<close>

definition page_re :: regex where
  "page_re = seq [Cls (\<lambda>c. c = 63 \<or> c = 38), chr 112, chr 97, chr 103, chr 101, chr 61,
                  plus (Cls isdecimal)]"

definition page_number :: "pystr \<Rightarrow> nat option" where
  "page_number s =
     (case re_search page_re [] s of
        None \<Rightarrow> None
      | Some (pre, m, post) \<Rightarrow> digits_value (drop 6 m) 0)"

text \<open>The pagination fallback of \<^verbatim>\<open>parse_listing\<close>: \<open>current_page\<close> is the value of
  \<^verbatim>\<open>cur\<close>, and \<open>page_candidate\<close> the value of \<^verbatim>\<open>cand\<close> after the loop over
  \<^verbatim>\<open>sorted(set(pages))\<close>.\<close>

definition current_page :: "'d response \<Rightarrow> nat" where
  "current_page r = (case page_number (url r) of Some n \<Rightarrow> n | None \<Rightarrow> 1)"

definition page_candidate :: "'d response \<Rightarrow> pystr option" where
  "page_candidate r =
     (let pages = hrefs_containing (lit ''?page='') r;
          cur = current_page r
      in find (\<lambda>p. page_number p = Some (cur + 1)) (sort (remdups pages)))"

definition follow_products :: "(pystr \<Rightarrow> pystr \<Rightarrow> pystr) \<Rightarrow> 'd response \<Rightarrow> spider \<times> 'i yielded list \<Rightarrow> pystr
    \<Rightarrow> spider \<times> 'i yielded list" where
  "follow_products J r acc h =
     (case abs_url J r h of
        Some u \<Rightarrow> (if u \<noteq> [] \<and> u \<notin> seen (fst acc)
                   then ((fst acc)\<lparr>seen := insert u (seen (fst acc))\<rparr>,
                         snd acc @ [Follow u Parse_product False])
                   else acc)
      | None \<Rightarrow> acc)"

definition parse_listing :: "(pystr \<Rightarrow> pystr \<Rightarrow> pystr) \<Rightarrow> spider \<Rightarrow> 'd response \<Rightarrow> spider \<times> 'i yielded list" where
  "parse_listing J s r =
     (let acc = foldl (follow_products J r) (s, []) (hrefs_starting (lit ''/produkt/'') r);
          s = fst acc
      in if max_items s \<le> item_count s then acc
         else let next_href = (case next_anchor_href r of
                                 Some candidate \<Rightarrow>
                                   (if candidate \<noteq> [] then Some candidate else page_candidate r)
                               | None \<Rightarrow> page_candidate r)
              in case next_href of
                   Some h \<Rightarrow> (if h \<noteq> [] then (s, snd acc @ [Follow h Parse_listing False])
                              else acc)
                 | None \<Rightarrow> acc)"

definition parse_category :: "(pystr \<Rightarrow> pystr \<Rightarrow> pystr) \<Rightarrow> spider \<Rightarrow> 'd response \<Rightarrow> spider \<times> 'i yielded list" where
  "parse_category J s r =
     (let subcats = hrefs_starting (lit ''/produkte/'') r
      in if subcats \<noteq> [] then (s, map (\<lambda>h. Follow h Parse_listing False) (fromkeys subcats))
         else parse_listing J s r)"

text \<open>
  \<^verbatim>\<open>parse_product\<close>. Between the check of the counter and its increment the handler only
  builds the item from the response, with helpers that do not touch the spider's
  attributes; \<open>E\<close> is that construction, with \<open>Inl\<close> when it raises (then nothing is
  yielded and the counter keeps its value).
\<close>

definition parse_product :: "('d response \<Rightarrow> error + 'i) \<Rightarrow> spider \<Rightarrow> 'd response \<Rightarrow> spider \<times> 'i yielded list" where
  "parse_product E s r =
     (let s = s\<lparr>current_url := Some (url r)\<rparr>
      in if max_items s \<le> item_count s then (s, [])
         else case E r of
                Inl e \<Rightarrow> (s, [])
              | Inr item \<Rightarrow> (s\<lparr>item_count := item_count s + 1\<rparr>, [Item item]))"

text \<open>A crawl is a sequence of handler invocations, each on the response the framework
  passes to it; \<open>crawl\<close> runs them in order and collects what they yield.\<close>

datatype 'd invocation =
    Call_parse "'d response"
  | Call_parse_category "'d response"
  | Call_parse_listing "'d response"
  | Call_parse_product "'d response"

fun invoke :: "(pystr \<Rightarrow> pystr \<Rightarrow> pystr) \<Rightarrow> ('d response \<Rightarrow> error + 'i) \<Rightarrow> spider \<Rightarrow> 'd invocation
    \<Rightarrow> spider \<times> 'i yielded list" where
  "invoke J E s (Call_parse r) = parse J s r"
| "invoke J E s (Call_parse_category r) = parse_category J s r"
| "invoke J E s (Call_parse_listing r) = parse_listing J s r"
| "invoke J E s (Call_parse_product r) = parse_product E s r"

fun crawl :: "(pystr \<Rightarrow> pystr \<Rightarrow> pystr) \<Rightarrow> ('d response \<Rightarrow> error + 'i) \<Rightarrow> spider \<Rightarrow> 'd invocation list
    \<Rightarrow> spider \<times> 'i yielded list" where
  "crawl J E s [] = (s, [])"
| "crawl J E s (c # cs) =
     (let step = invoke J E s c; rest = crawl J E (fst step) cs
      in (fst rest, snd step @ snd rest))"

definition is_item :: "'i yielded \<Rightarrow> bool" where
  "is_item y = (case y of Item i \<Rightarrow> True | Follow u c f \<Rightarrow> False)"

definition is_pagination :: "'i yielded \<Rightarrow> bool" where
  "is_pagination y = (case y of Follow u c f \<Rightarrow> c = Parse_listing | Item i \<Rightarrow> False)"

section \<open>Notions of the specification\<close>





text \<open>The record and the cleaned item of the end-to-end scenario; 8364 is the euro sign.\<close>

definition scenario_record :: "(pystr \<times> pyval) list" where
  "scenario_record =
     [(lit ''product_url'', PStr (lit ''http://x/p/55'')),
      (lit ''product_name'', PStr (lit '' Foo   Bar '')),
      (lit ''price'', PStr (8364 # lit '' 3,50'')),
      (lit ''images'', PStr (lit ''http://cdn/a.jpg, http://cdn/b.jpg''))]"

definition scenario_cleaned :: "(pystr \<times> pystr) list" where
  "scenario_cleaned =
     [(lit ''product_url'', lit ''http://x/p/55''),
      (lit ''product_name'', lit ''Foo Bar''),
      (lit ''price'', lit ''3,50''),
      (lit ''regular_price'', lit ''3.50''),
      (lit ''currency'', []),
      (lit ''images'', lit ''http://cdn/a.jpg;http://cdn/b.jpg''),
      (lit ''product_description'', []),
      (lit ''unique_id'', []),
      (lit ''product_id'', []),
      (lit ''ingredients'', []),
      (lit ''details'', [])]"

text \<open>A listing page (page 2, with links to the pages 1, 3 and 4 and one product link) and
  a product page.\<close>

definition listing_example :: "unit response" where
  "listing_example =
     \<lparr>url = lit ''https://x/produkte/a?page=2'',
      anchors = [\<lparr>href = Some (lit ''/produkte/a?page=1''), label = lit ''1''\<rparr>,
                 \<lparr>href = Some (lit ''/produkte/a?page=3''), label = lit ''3''\<rparr>,
                 \<lparr>href = Some (lit ''/produkte/a?page=4''), label = lit ''4''\<rparr>,
                 \<lparr>href = Some (lit ''/produkt/7''), label = lit ''Milch''\<rparr>],
      dom = ()\<rparr>"

definition product_example :: "unit response" where
  "product_example = \<lparr>url = lit ''https://x/produkt/7'', anchors = [], dom = ()\<rparr>"

section \<open>Evaluation on concrete inputs\<close>

lemmas str_eval = lit_def strip_def strip_chars_def strip_quotes_def isspace_def replace_char_def
  startswith_def lower_def lower_char_def digit_value_def nd_zeros_def isdecimal_def str_int_def

lemmas re_eval = seq_def plus_def rep3_def rep1_2_def rep1_3_def chr_def icase_def url_char_def
  URL_RE_def price_re_def sep_re_def spaces_re_def re_findall.simps re_split.simps re_sub.simps

lemmas float_eval = py_float_def parse_decimal_def to_binary64_def floor_log2_ratio_def
  ratio_ge_def round_half_even_def bit_length.simps digits_of_nat.simps

lemmas clean_eval = normalize_price_def extract_urls_from_string_def add_new_def add_stripped_def
  add_http_def flatten_str_def flatten_seq_def is_container_def looks_like_image_key_def
  guess_image_keys_def clean_text_def mentions_url_def select_images_def clean_item_def
  dict_get_def has_key_def py_or_def get_or_empty_def json_string_def json_escape_char_def
  hex_digit_def Let_def

lemmas spider_eval = hrefs_containing_def hrefs_starting_def suggests_next_def
  next_anchor_href_def page_re_def page_number_def current_page_def page_candidate_def
  follow_products_def abs_url_def parse_listing_def parse_product_def spider_init_def
  is_item_def is_pagination_def

section \<open>Price normalization\<close>

text \<open>
  C1. The claim: when the matched number contains both commas and dots, the comma is
  the decimal separator, the dots are removed, and \<^verbatim>\<open>"1.234,56"\<close> is normalized to
  \<^verbatim>\<open>"1234.56"\<close>. The code replaces the comma by a dot and keeps the dots, so
  \<^verbatim>\<open>float("1.234.56")\<close> raises and the normalized value is \<^verbatim>\<open>None\<close>: the raw price is
  \<^verbatim>\<open>"1.234,56"\<close> and the cleaned item's \<^verbatim>\<open>regular_price\<close> is the empty string.
\<close>

theorem normalize_price_dots_and_comma:
  "normalize_price R (PStr (lit ''1.234,56'')) = (Some (lit ''1.234,56''), None)
   \<and> get_or_empty (clean_item R [(lit ''price'', PStr (lit ''1.234,56''))])
        (lit ''regular_price'') = []"
  by (simp add: str_eval re_eval float_eval clean_eval)

lemma rmatch_price_re_no_digit:
  "s = [] \<or> \<not> isdecimal (hd s) \<Longrightarrow> rmatch price_re s = []"
  by (cases s) (auto simp: price_re_def seq_def rep1_3_def)

lemma re_search_price_re_None:
  "list_all (\<lambda>c. \<not> isdecimal c) s \<Longrightarrow> re_search price_re pre s = None"
proof (induction s arbitrary: pre)
  case Nil
  then show ?case by (simp add: rmatch_price_re_no_digit)
next
  case (Cons c cs)
  then have "rmatch price_re (c # cs) = []"
    by (intro rmatch_price_re_no_digit) simp
  then show ?case using Cons by simp
qed

lemma not_decimal_32: "\<not> isdecimal 32"
  by (simp add: isdecimal_def digit_value_def nd_zeros_def)

lemma no_digit_strip:
  "list_all (\<lambda>c. \<not> isdecimal c) s \<Longrightarrow> list_all (\<lambda>c. \<not> isdecimal c) (strip s)"
proof -
  assume a: "list_all (\<lambda>c. \<not> isdecimal c) s"
  have "set (strip s) \<subseteq> set s"
  proof
    fix x assume "x \<in> set (strip s)"
    then have "x \<in> set (dropWhile isspace (rev (dropWhile isspace s)))"
      by (simp add: strip_def)
    then have "x \<in> set (rev (dropWhile isspace s))"
      by (rule set_dropWhileD)
    then have "x \<in> set (dropWhile isspace s)"
      by simp
    then show "x \<in> set s"
      by (rule set_dropWhileD)
  qed
  then show ?thesis using a by (auto simp: list_all_iff)
qed

lemma no_digit_replace_nbsp:
  "list_all (\<lambda>c. \<not> isdecimal c) s \<Longrightarrow> list_all (\<lambda>c. \<not> isdecimal c) (replace_char 160 [32] s)"
  by (induction s) (auto simp: replace_char_def not_decimal_32)

lemma normalize_price_no_digit:
  assumes "truthy p" and "list_all (\<lambda>c. \<not> isdecimal c) (py_str R p)"
  shows "normalize_price R p = (Some (replace_char 160 [32] (strip (py_str R p))), None)"
  using assms
  by (simp add: normalize_price_def Let_def re_search_price_re_None no_digit_strip
        no_digit_replace_nbsp)

lemma clean_item_price:
  "get_or_empty (clean_item R it) (lit ''price'')
     = (case fst (normalize_price R (py_or (py_or (dict_get it (lit ''price''))
                                                   (dict_get it (lit ''regular_price'')))
                                            (PStr [])))
        of Some raw_price \<Rightarrow> raw_price | None \<Rightarrow> [])"
  "get_or_empty (clean_item R it) (lit ''regular_price'')
     = (case snd (normalize_price R (py_or (py_or (dict_get it (lit ''price''))
                                                   (dict_get it (lit ''regular_price'')))
                                            (PStr [])))
        of Some numeric \<Rightarrow> numeric | None \<Rightarrow> [])"
  by (simp_all add: clean_item_def get_or_empty_def Let_def lit_def)

text \<open>
  C2. The claim: for every non-null price input without digits, the cleaned item's
  \<^verbatim>\<open>price\<close> and \<^verbatim>\<open>regular_price\<close> are both empty. When the pattern finds no number,
  \<^verbatim>\<open>normalize_price\<close> returns the stripped input as the raw price, so only
  \<^verbatim>\<open>regular_price\<close> is empty; the price \<^verbatim>\<open>"N/A"\<close> gives the \<^verbatim>\<open>price\<close> field \<^verbatim>\<open>"N/A"\<close>.
  Amended: for every price input that is truthy and whose text contains no decimal digit,
  \<^verbatim>\<open>regular_price\<close> is the empty string and \<^verbatim>\<open>price\<close> is the text of the input, stripped
  and with each no-break space replaced by a space.
\<close>

theorem no_digit_price:
  assumes "truthy p"
    and "list_all (\<lambda>c. \<not> isdecimal c) (py_str R p)"
    and "dict_get it (lit ''price'') = p"
  shows "normalize_price R p = (Some (replace_char 160 [32] (strip (py_str R p))), None)
     \<and> get_or_empty (clean_item R it) (lit ''price'') = replace_char 160 [32] (strip (py_str R p))
     \<and> get_or_empty (clean_item R it) (lit ''regular_price'') = []"
  using assms normalize_price_no_digit [OF assms(1,2)]
  by (simp add: clean_item_price py_or_def)

theorem no_digit_price_witness:
  "truthy (PStr (lit '' N/A ''))
   \<and> list_all (\<lambda>c. \<not> isdecimal c) (py_str (\<lambda>v. []) (PStr (lit '' N/A '')))
   \<and> dict_get [(lit ''price'', PStr (lit '' N/A ''))] (lit ''price'') = PStr (lit '' N/A '')
   \<and> get_or_empty (clean_item (\<lambda>v. []) [(lit ''price'', PStr (lit '' N/A ''))]) (lit ''price'')
        = lit ''N/A''
   \<and> get_or_empty (clean_item (\<lambda>v. []) [(lit ''price'', PStr (lit '' N/A ''))])
        (lit ''regular_price'') = []"
proof -
  have a: "truthy (PStr (lit '' N/A ''))"
    by (simp add: lit_def)
  have b: "list_all (\<lambda>c. \<not> isdecimal c) (py_str (\<lambda>v. []) (PStr (lit '' N/A '')))"
    by (simp add: str_eval)
  have c: "dict_get [(lit ''price'', PStr (lit '' N/A ''))] (lit ''price'') = PStr (lit '' N/A '')"
    by (simp add: dict_get_def)
  have d: "replace_char 160 [32] (strip (py_str (\<lambda>v. []) (PStr (lit '' N/A '')))) = lit ''N/A''"
    by (simp add: str_eval)
  from no_digit_price [OF a b c] a b c d show ?thesis by simp
qed

theorem no_digit_price_counterexample:
  "truthy (PStr (lit ''N/A''))
   \<and> list_all (\<lambda>c. \<not> isdecimal c) (lit ''N/A'')
   \<and> get_or_empty (clean_item (\<lambda>v. []) [(lit ''price'', PStr (lit ''N/A''))]) (lit ''price'')
        = lit ''N/A''
   \<and> get_or_empty (clean_item (\<lambda>v. []) [(lit ''price'', PStr (lit ''N/A''))]) (lit ''price'')
        \<noteq> []"
  by (simp add: str_eval re_eval clean_eval)

section \<open>The end-to-end scenario\<close>

lemma scenario_clean_item: "clean_item R scenario_record = scenario_cleaned"
  unfolding scenario_record_def scenario_cleaned_def
  by (simp add: str_eval re_eval float_eval clean_eval)

lemma scenario_select_images: "select_images R scenario_record \<noteq> []"
  unfolding scenario_record_def
  by (simp add: str_eval re_eval clean_eval)

lemma scenario_uid: "dedup_uid scenario_record = PStr (lit ''http://x/p/55'')"
  by (simp add: scenario_record_def dedup_uid_def dict_get_def py_or_def lit_def)

lemma scenario_encodable: "all_encodable [scenario_cleaned]"
  by (simp add: scenario_cleaned_def all_encodable_def encodable_def lit_def)

lemma scenario_loop:
  "main_loop R [PDict scenario_record] init_state =
     Inr \<lparr>cleaned = [scenario_cleaned], seen_ids = {PStr (lit ''http://x/p/55'')},
          removed = 0, items_with_images = 1\<rparr>"
  by (simp add: loop_body_def emit_def init_state_def scenario_uid scenario_clean_item
        scenario_select_images Let_def lit_def)

text \<open>
  C4. Running the post-processor on the one-element list that holds \<open>scenario_record\<close>
  (product_url \<^verbatim>\<open>http://x/p/55\<close>, product_name \<^verbatim>\<open>" Foo   Bar "\<close>, price \<^verbatim>\<open>"\<euro> 3,50"\<close>, images
  \<^verbatim>\<open>"http://cdn/a.jpg, http://cdn/b.jpg"\<close>) ends normally and writes exactly one cleaned
  item, \<open>scenario_cleaned\<close>: product_name \<^verbatim>\<open>"Foo Bar"\<close>, price \<^verbatim>\<open>"3,50"\<close>, regular_price
  \<^verbatim>\<open>"3.50"\<close>, images \<^verbatim>\<open>"http://cdn/a.jpg;http://cdn/b.jpg"\<close>.
\<close>

theorem end_to_end_scenario:
  "main R \<lparr>input_json = Document (PList [PDict scenario_record]), outputs = Map.empty, stdout = []\<rparr>
     = (None, \<lparr>input_json = Document (PList [PDict scenario_record]),
               outputs = [OUT_JSON \<mapsto> JsonFile [scenario_cleaned],
                          OUT_CSV \<mapsto> CsvFile fieldnames [csv_row scenario_cleaned]],
               stdout = report 1 1 0 1\<rparr>)
   \<and> get_or_empty scenario_cleaned (lit ''product_name'') = lit ''Foo Bar''
   \<and> get_or_empty scenario_cleaned (lit ''price'') = lit ''3,50''
   \<and> get_or_empty scenario_cleaned (lit ''regular_price'') = lit ''3.50''
   \<and> get_or_empty scenario_cleaned (lit ''images'') = lit ''http://cdn/a.jpg;http://cdn/b.jpg''"
proof (intro conjI)
  show "main R \<lparr>input_json = Document (PList [PDict scenario_record]), outputs = Map.empty,
                 stdout = []\<rparr>
     = (None, \<lparr>input_json = Document (PList [PDict scenario_record]),
               outputs = [OUT_JSON \<mapsto> JsonFile [scenario_cleaned],
                          OUT_CSV \<mapsto> CsvFile fieldnames [csv_row scenario_cleaned]],
               stdout = report 1 1 0 1\<rparr>)"
    by (simp add: main_def load_json_def scenario_loop scenario_encodable del: main_loop.simps)
qed (simp_all add: get_or_empty_def scenario_cleaned_def lit_def)

section \<open>Flattening of the image field\<close>















section \<open>A missing input file\<close>

text \<open>
  C7. If \<^verbatim>\<open>output.json\<close> does not exist, \<^verbatim>\<open>main\<close> prints the error and returns; the
  world after the run differs from the world before it only by the printed line, so
  neither \<^verbatim>\<open>cleaned_output.json\<close> nor \<^verbatim>\<open>cleaned_output.csv\<close> is written.
\<close>

theorem missing_input_writes_nothing:
  "input_json w = Missing \<Longrightarrow>
     main R w = (None, w\<lparr>stdout := stdout w @ [lit ''ERROR: output.json not found in current folder.'']\<rparr>)
     \<and> outputs (snd (main R w)) = outputs w"
  by (simp add: main_def load_json_def)

theorem missing_input_writes_nothing_witness:
  "input_json \<lparr>input_json = Missing, outputs = Map.empty, stdout = []\<rparr> = Missing
   \<and> main (\<lambda>v. []) \<lparr>input_json = Missing, outputs = Map.empty, stdout = []\<rparr>
       = (None, \<lparr>input_json = Missing, outputs = Map.empty,
                 stdout = [lit ''ERROR: output.json not found in current folder.'']\<rparr>)
   \<and> outputs (snd (main (\<lambda>v. []) \<lparr>input_json = Missing, outputs = Map.empty, stdout = []\<rparr>))
        OUT_JSON = None
   \<and> outputs (snd (main (\<lambda>v. []) \<lparr>input_json = Missing, outputs = Map.empty, stdout = []\<rparr>))
        OUT_CSV = None"
  using missing_input_writes_nothing
          [of "\<lparr>input_json = Missing, outputs = Map.empty, stdout = []\<rparr>" "\<lambda>v. []"]
  by simp

section \<open>The extractor's item limit and pagination\<close>

lemma follow_products_counts:
  "item_count (fst (foldl (follow_products J r) acc hs)) = item_count (fst acc)"
  "max_items (fst (foldl (follow_products J r) acc hs)) = max_items (fst acc)"
  "filter is_item (snd (foldl (follow_products J r) acc hs)) = filter is_item (snd acc)"
  "filter is_pagination (snd (foldl (follow_products J r) acc hs))
     = filter is_pagination (snd acc)"
  by (induction hs arbitrary: acc)
     (auto simp: follow_products_def is_item_def is_pagination_def split: option.splits)

lemma parse_listing_counts:
  "item_count (fst (parse_listing J s r)) = item_count s"
  "max_items (fst (parse_listing J s r)) = max_items s"
  "filter is_item (snd (parse_listing J s r)) = []"
  by (auto simp: parse_listing_def Let_def is_item_def follow_products_counts
           split: option.splits)

lemma parse_listing_stops:
  "max_items s \<le> item_count s \<Longrightarrow> filter is_pagination (snd (parse_listing J s r)) = []"
  by (simp add: parse_listing_def Let_def follow_products_counts)

lemma parse_counts:
  "fst (parse J s r) = s"
  "filter is_item (snd (parse J s r :: spider \<times> 'i yielded list)) = []"
proof -
  have "filter is_item (concat (map (\<lambda>h. case abs_url J r h of
           Some u \<Rightarrow> (if u \<noteq> [] then [Follow u Parse_category True :: 'i yielded] else [])
         | None \<Rightarrow> []) hs)) = []" for hs
    by (induction hs) (auto simp: is_item_def split: option.splits)
  then show "filter is_item (snd (parse J s r :: spider \<times> 'i yielded list)) = []"
    by (simp add: parse_def Let_def)
qed (simp add: parse_def Let_def)

lemma parse_category_counts:
  "item_count (fst (parse_category J s r)) = item_count s"
  "max_items (fst (parse_category J s r)) = max_items s"
  "filter is_item (snd (parse_category J s r :: spider \<times> 'i yielded list)) = []"
proof -
  have "filter is_item (map (\<lambda>h. Follow h Parse_listing False :: 'i yielded) hs) = []"
    for hs :: "pystr list"
    by (induction hs) (auto simp: is_item_def)
  then show "filter is_item (snd (parse_category J s r :: spider \<times> 'i yielded list)) = []"
    by (simp add: parse_category_def Let_def parse_listing_counts)
qed (simp_all add: parse_category_def Let_def parse_listing_counts)

lemma parse_product_counts:
  "max_items (fst (parse_product E s r)) = max_items s"
  "item_count (fst (parse_product E s r))
     = item_count s + int (length (filter is_item (snd (parse_product E s r))))"
  "item_count s \<le> max_items s \<Longrightarrow> item_count (fst (parse_product E s r)) \<le> max_items s"
  by (auto simp: parse_product_def Let_def is_item_def split: sum.splits)

lemma parse_product_suppressed:
  "max_items s \<le> item_count s \<Longrightarrow> parse_product E s r = (s\<lparr>current_url := Some (url r)\<rparr>, [])"
  by (simp add: parse_product_def Let_def)

lemma invoke_counts:
  "max_items (fst (invoke J E s c)) = max_items s"
  "item_count (fst (invoke J E s c))
     = item_count s + int (length (filter is_item (snd (invoke J E s c))))"
  "item_count s \<le> max_items s \<Longrightarrow> item_count (fst (invoke J E s c)) \<le> max_items s"
proof -
  show "max_items (fst (invoke J E s c)) = max_items s"
    by (cases c) (simp_all add: parse_counts parse_category_counts parse_listing_counts
          parse_product_counts)
  show "item_count (fst (invoke J E s c))
     = item_count s + int (length (filter is_item (snd (invoke J E s c))))"
    by (cases c) (simp_all add: parse_counts parse_category_counts parse_listing_counts
          parse_product_counts(2))
  show "item_count s \<le> max_items s \<Longrightarrow> item_count (fst (invoke J E s c)) \<le> max_items s"
    by (cases c) (simp_all add: parse_counts parse_category_counts parse_listing_counts
          parse_product_counts(3))
qed

lemma crawl_counts:
  "item_count s \<le> max_items s \<Longrightarrow>
     item_count s + int (length (filter is_item (snd (crawl J E s cs)))) \<le> max_items s"
proof (induction cs arbitrary: s)
  case Nil
  then show ?case by simp
next
  case (Cons c cs)
  let ?s' = "fst (invoke J E s c)"
  have c: "item_count ?s' \<le> max_items ?s'"
    using invoke_counts(3) [OF Cons.prems, of J E c] by (simp only: invoke_counts(1))
  have "item_count ?s' + int (length (filter is_item (snd (crawl J E ?s' cs)))) \<le> max_items ?s'"
    using Cons.IH [OF c] .
  then show ?case by (simp add: Let_def invoke_counts)
qed

text \<open>
  C8. Once the counter has reached \<^verbatim>\<open>max_items\<close>, the product handler yields nothing and
  changes nothing but \<^verbatim>\<open>_current_url\<close> (the counter keeps its value), and the listing
  handler yields no pagination request. For a spider configured with a maximum \<open>m\<close> that
  is not negative, the number of items yielded over any sequence of handler invocations
  is at most \<open>m\<close>.
\<close>

theorem item_limit:
  "(max_items s \<le> item_count s \<longrightarrow>
      parse_product E s r = (s\<lparr>current_url := Some (url r)\<rparr>, [])
      \<and> filter is_pagination (snd (parse_listing J s r)) = [])
   \<and> (0 \<le> m \<longrightarrow>
        int (length (filter is_item (snd (crawl J E (spider_init (Some m)) cs)))) \<le> m)"
proof (intro conjI impI)
  assume "0 \<le> m"
  then show "int (length (filter is_item (snd (crawl J E (spider_init (Some m)) cs)))) \<le> m"
    using crawl_counts [of "spider_init (Some m)" J E cs] by (simp add: spider_init_def)
qed (simp_all add: parse_product_suppressed parse_listing_stops)

theorem item_limit_witness:
  "max_items (spider_init (Some 0)) \<le> item_count (spider_init (Some 0))
   \<and> parse_product (\<lambda>r. Inr (url r)) (spider_init (Some 0)) listing_example
        = ((spider_init (Some 0))\<lparr>current_url := Some (url listing_example)\<rparr>,
           [] :: pystr yielded list)
   \<and> filter is_pagination
        (snd (parse_listing (\<lambda>b h. lit ''https://x'' @ h) (spider_init (Some 0)) listing_example
              :: spider \<times> pystr yielded list)) = []
   \<and> (0 :: int) \<le> 1
   \<and> filter is_item
        (snd (crawl (\<lambda>b h. lit ''https://x'' @ h) (\<lambda>r. Inr (url r)) (spider_init (Some 1))
                [Call_parse_product product_example, Call_parse_listing listing_example,
                 Call_parse_product product_example]))
      = [Item (lit ''https://x/produkt/7'')]
   \<and> int (length (filter is_item
        (snd (crawl (\<lambda>b h. lit ''https://x'' @ h) (\<lambda>r. Inr (url r)) (spider_init (Some 1))
                [Call_parse_product product_example, Call_parse_listing listing_example,
                 Call_parse_product product_example])))) \<le> 1"
proof -
  have a: "max_items (spider_init (Some 0)) \<le> item_count (spider_init (Some 0))"
    by (simp add: spider_init_def)
  have c: "filter is_item
        (snd (crawl (\<lambda>b h. lit ''https://x'' @ h) (\<lambda>r. Inr (url r)) (spider_init (Some 1))
                [Call_parse_product product_example, Call_parse_listing listing_example,
                 Call_parse_product product_example]))
      = [Item (lit ''https://x/produkt/7'')]"
    by (simp add: listing_example_def product_example_def spider_eval str_eval re_eval Let_def)
  from item_limit [of "spider_init (Some 0)" "\<lambda>r. Inr (url r)" listing_example
                    "\<lambda>b h. lit ''https://x'' @ h" 1
                    "[Call_parse_product product_example, Call_parse_listing listing_example,
                      Call_parse_product product_example]"] a c
  show ?thesis by simp
qed

lemma page_number_Nil: "page_number [] = None"
  by (simp add: page_number_def page_re_def seq_def)

lemma page_candidate_Some:
  assumes "page_candidate r = Some h"
  shows "h \<in> set (hrefs_containing (lit ''?page='') r)"
    and "page_number h = Some (current_page r + 1)"
    and "h \<noteq> []"
proof -
  from assms obtain i where
    i: "i < length (sort (remdups (hrefs_containing (lit ''?page='') r)))"
    and p: "page_number (sort (remdups (hrefs_containing (lit ''?page='') r)) ! i)
              = Some (current_page r + 1)"
    and h: "h = sort (remdups (hrefs_containing (lit ''?page='') r)) ! i"
    by (auto simp: page_candidate_def Let_def find_Some_iff)
  from i h have "h \<in> set (sort (remdups (hrefs_containing (lit ''?page='') r)))"
    using nth_mem by blast
  then show "h \<in> set (hrefs_containing (lit ''?page='') r)" by simp
  from p h show n: "page_number h = Some (current_page r + 1)" by simp
  show "h \<noteq> []" using n page_number_Nil by auto
qed

lemma page_candidate_None:
  "list_all (\<lambda>h. page_number h \<noteq> Some (current_page r + 1)) (hrefs_containing (lit ''?page='') r)
     \<Longrightarrow> page_candidate r = None"
  by (auto simp: page_candidate_def Let_def find_None_iff list_all_iff)

lemma page_candidate_exists:
  "h \<in> set (hrefs_containing (lit ''?page='') r) \<Longrightarrow> page_number h = Some (current_page r + 1)
     \<Longrightarrow> page_candidate r \<noteq> None"
  by (auto simp: page_candidate_def Let_def find_None_iff)

lemma hrefs_containing_contains: "h \<in> set (hrefs_containing x r) \<Longrightarrow> contains x h"
proof -
  assume "h \<in> set (hrefs_containing x r)"
  then obtain a where a: "a \<in> set (anchors r)"
    and h: "h \<in> set (case href a of Some h' \<Rightarrow> (if contains x h' then [h'] else [])
                                   | None \<Rightarrow> [])"
    unfolding hrefs_containing_def by (simp only: set_concat set_map) blast
  show ?thesis
  proof (cases "href a")
    case None
    with h show ?thesis by simp
  next
    case (Some h')
    with h show ?thesis by (cases "contains x h'") simp_all
  qed
qed

lemma next_anchor_href_None:
  "list_all (\<lambda>a. \<not> suggests_next a) (anchors r) \<Longrightarrow> next_anchor_href r = None"
proof -
  assume "list_all (\<lambda>a. \<not> suggests_next a) (anchors r)"
  then have "filter suggests_next (anchors r) = []"
    by (simp add: filter_empty_conv list_all_iff)
  then show ?thesis by (simp add: next_anchor_href_def)
qed

lemma parse_listing_pagination:
  assumes "next_anchor_href r = None"
  shows "filter is_pagination (snd (parse_listing J s r :: spider \<times> 'i yielded list))
           = (if max_items s \<le> item_count s then []
              else case page_candidate r of
                     Some h \<Rightarrow> [Follow h Parse_listing False]
                   | None \<Rightarrow> [])"
proof (cases "page_candidate r")
  case None
  then show ?thesis
    using assms by (simp add: parse_listing_def Let_def follow_products_counts)
next
  case (Some h)
  then have "h \<noteq> []" by (rule page_candidate_Some)
  then show ?thesis
    using assms Some
    by (simp add: parse_listing_def Let_def follow_products_counts is_pagination_def)
qed

lemma listing_example_result:
  "parse_listing (\<lambda>b h. lit ''https://x'' @ h) (spider_init (Some 5)) listing_example
     = (\<lparr>max_items = 5, seen = {lit ''https://x/produkt/7''}, item_count = 0, current_url = None\<rparr>,
        [Follow (lit ''https://x/produkt/7'') Parse_product False,
         Follow (lit ''/produkte/a?page=3'') Parse_listing False :: unit yielded])"
  by (simp add: listing_example_def spider_eval str_eval re_eval Let_def)

text \<open>
  C9. On a listing page on which no anchor's text suggests "next", the requests for a
  further listing page (\<open>paging\<close>) are at most one; its target is a link of the page
  that contains \<^verbatim>\<open>?page=\<close> and whose page number is the current page number plus one,
  the current page number being the one read from the response URL, or 1 when it has
  none. If no link has that page number, no such request is made; if one has and the
  counter is below the maximum, exactly one is made.
\<close>

theorem pagination_by_page_number:
  assumes "list_all (\<lambda>a. \<not> suggests_next a) (anchors r)"
    and "paging = filter is_pagination (snd (parse_listing J s r))"
  shows "length paging \<le> 1
     \<and> (\<forall>y \<in> set paging.
          \<exists>h. y = Follow h Parse_listing False
             \<and> h \<in> set (hrefs_containing (lit ''?page='') r)
             \<and> contains (lit ''?page='') h
             \<and> page_number h = Some (current_page r + 1))
     \<and> (list_all (\<lambda>h. page_number h \<noteq> Some (current_page r + 1))
                  (hrefs_containing (lit ''?page='') r)
          \<longrightarrow> paging = [])
     \<and> (item_count s < max_items s
          \<and> list_ex (\<lambda>h. page_number h = Some (current_page r + 1))
                     (hrefs_containing (lit ''?page='') r)
          \<longrightarrow> length paging = 1)
     \<and> current_page r = (case page_number (url r) of Some n \<Rightarrow> n | None \<Rightarrow> 1)"
proof -
  have n: "next_anchor_href r = None"
    using assms(1) by (rule next_anchor_href_None)
  have pg: "paging = (if max_items s \<le> item_count s then []
              else case page_candidate r of
                     Some h \<Rightarrow> [Follow h Parse_listing False]
                   | None \<Rightarrow> [])"
    unfolding assms(2) by (rule parse_listing_pagination [OF n])
  show ?thesis
  proof (intro conjI ballI impI)
    show "length paging \<le> 1"
      by (simp add: pg split: option.splits)
  next
    fix y assume "y \<in> set paging"
    then obtain h where "page_candidate r = Some h" "y = Follow h Parse_listing False"
      by (auto simp: pg split: option.splits if_splits)
    then show "\<exists>h. y = Follow h Parse_listing False
             \<and> h \<in> set (hrefs_containing (lit ''?page='') r)
             \<and> contains (lit ''?page='') h
             \<and> page_number h = Some (current_page r + 1)"
      using page_candidate_Some [of r h] hrefs_containing_contains by blast
  next
    assume "list_all (\<lambda>h. page_number h \<noteq> Some (current_page r + 1))
                  (hrefs_containing (lit ''?page='') r)"
    then show "paging = []"
      by (simp add: pg page_candidate_None)
  next
    assume "item_count s < max_items s
          \<and> list_ex (\<lambda>h. page_number h = Some (current_page r + 1))
                     (hrefs_containing (lit ''?page='') r)"
    then show "length paging = 1"
      using page_candidate_exists [of _ r]
      by (auto simp: pg list_ex_iff split: option.splits)
  next
    show "current_page r = (case page_number (url r) of Some n \<Rightarrow> n | None \<Rightarrow> 1)"
      by (simp add: current_page_def)
  qed
qed

theorem pagination_by_page_number_witness:
  "list_all (\<lambda>a. \<not> suggests_next a) (anchors listing_example)
   \<and> filter is_pagination
        (snd (parse_listing (\<lambda>b h. lit ''https://x'' @ h) (spider_init (Some 5)) listing_example))
      = [Follow (lit ''/produkte/a?page=3'') Parse_listing False :: unit yielded]
   \<and> current_page listing_example = 2
   \<and> lit ''/produkte/a?page=3'' \<in> set (hrefs_containing (lit ''?page='') listing_example)
   \<and> page_number (lit ''/produkte/a?page=3'') = Some (current_page listing_example + 1)"
proof -
  have a: "list_all (\<lambda>a. \<not> suggests_next a) (anchors listing_example)"
    by (simp add: listing_example_def suggests_next_def str_eval)
  have b: "[Follow (lit ''/produkte/a?page=3'') Parse_listing False :: unit yielded]
             = filter is_pagination
                 (snd (parse_listing (\<lambda>b h. lit ''https://x'' @ h) (spider_init (Some 5))
                         listing_example))"
    by (simp add: listing_example_result is_pagination_def)
  have c: "current_page listing_example = 2"
    by (simp add: listing_example_def spider_eval str_eval re_eval)
  have d: "lit ''/produkte/a?page=3'' \<in> set (hrefs_containing (lit ''?page='') listing_example)"
    by (simp add: listing_example_def hrefs_containing_def str_eval)
  have e: "page_number (lit ''/produkte/a?page=3'') = Some (current_page listing_example + 1)"
    unfolding c by (simp add: page_number_def page_re_def str_eval re_eval)
  from pagination_by_page_number [OF a b] a b c d e show ?thesis
    by simp
qed

end
